theory Spec2Isabelle
  imports Complex_Main
begin

section \<open>Python values\<close>

text \<open>
  The script of \<^verbatim>\<open>src/Restaurant-Data.py\<close> handles JSON decoded by
  \<^verbatim>\<open>response.json()\<close>, so every value it touches is one of Python's JSON types.
  A \<^verbatim>\<open>str\<close> is a list of characters with code points below 256; a \<^verbatim>\<open>dict\<close>
  is an association list read with \<open>map_of\<close>; a \<^verbatim>\<open>float\<close> is its exact real
  value, or one of the IEEE specials.
\<close>

datatype pyfloat = Finite real | Infinite bool | NaN

datatype pyval =
    PNone
  | PBool bool
  | PInt int
  | PFloat pyfloat
  | PStr string
  | PList "pyval list"
  | PDict "(string \<times> pyval) list"

text \<open>Every \<^verbatim>\<open>raise\<close> of the interpreter that the script can meet.\<close>

datatype exn =
    AttributeError
  | TypeError
  | KeyError
  | IndexError
  | ValueError
  | OverflowError
  | JSONDecodeError
  | RequestException

text \<open>\<^verbatim>\<open>bool(x)\<close>: the truth value Python's \<^verbatim>\<open>if\<close>, \<^verbatim>\<open>and\<close>, \<^verbatim>\<open>not\<close> and
  \<^verbatim>\<open>filter(None, ...)\<close> test.\<close>

fun truthy_float :: "pyfloat \<Rightarrow> bool" where
  "truthy_float (Finite r) = (r \<noteq> 0)"
| "truthy_float (Infinite _) = True"
| "truthy_float NaN = True"

fun truthy :: "pyval \<Rightarrow> bool" where
  "truthy PNone = False"
| "truthy (PBool b) = b"
| "truthy (PInt i) = (i \<noteq> 0)"
| "truthy (PFloat f) = truthy_float f"
| "truthy (PStr s) = (s \<noteq> [])"
| "truthy (PList xs) = (xs \<noteq> [])"
| "truthy (PDict kvs) = (kvs \<noteq> [])"

text \<open>Sequencing of computations that may raise: the first exception wins.\<close>

fun bind_exn :: "exn + 'a \<Rightarrow> ('a \<Rightarrow> exn + 'b) \<Rightarrow> exn + 'b" where
  "bind_exn (Inl e) f = Inl e"
| "bind_exn (Inr x) f = f x"

text \<open>\<^verbatim>\<open>d.get(key, default)\<close>: only a dict has the method.\<close>

fun dict_get :: "pyval \<Rightarrow> string \<Rightarrow> pyval \<Rightarrow> exn + pyval" where
  "dict_get (PDict kvs) k d = Inr (case map_of kvs k of None \<Rightarrow> d | Some v \<Rightarrow> v)"
| "dict_get _ k d = Inl AttributeError"

text \<open>\<^verbatim>\<open>x[0]\<close>. The keys of a decoded JSON object are strings, so a dict has no key 0.\<close>

fun subscript_zero :: "pyval \<Rightarrow> exn + pyval" where
  "subscript_zero (PList []) = Inl IndexError"
| "subscript_zero (PList (x # xs)) = Inr x"
| "subscript_zero (PStr []) = Inl IndexError"
| "subscript_zero (PStr (c # cs)) = Inr (PStr [c])"
| "subscript_zero (PDict kvs) = Inl KeyError"
| "subscript_zero _ = Inl TypeError"

text \<open>\<^verbatim>\<open>x["key"]\<close>.\<close>

fun subscript_key :: "pyval \<Rightarrow> string \<Rightarrow> exn + pyval" where
  "subscript_key (PDict kvs) k = (case map_of kvs k of None \<Rightarrow> Inl KeyError | Some v \<Rightarrow> Inr v)"
| "subscript_key _ k = Inl TypeError"

text \<open>
  The interpreter's number parsing and rounding are not part of the repository: the
  conversions \<^verbatim>\<open>float(str)\<close> (\<open>None\<close>: ValueError) and \<^verbatim>\<open>float(int)\<close>
  (\<open>None\<close>: OverflowError) are parameters, and so are the two web services, each
  answering a request with an exception of the transport or with a response.
\<close>

record http_response =
  status_code :: nat
  json :: "exn + pyval"

record world =
  float_of_str :: "string \<Rightarrow> pyfloat option"
  float_of_int :: "int \<Rightarrow> pyfloat option"
  nominatim :: "string \<Rightarrow> exn + http_response"
  overpass :: "nat \<Rightarrow> pyval \<Rightarrow> pyval \<Rightarrow> exn + http_response"

text \<open>\<^verbatim>\<open>float(x)\<close>.\<close>

fun py_float :: "world \<Rightarrow> pyval \<Rightarrow> exn + pyfloat" where
  "py_float W (PFloat f) = Inr f"
| "py_float W (PInt i) = (case float_of_int W i of None \<Rightarrow> Inl OverflowError | Some f \<Rightarrow> Inr f)"
| "py_float W (PBool b) = Inr (Finite (if b then 1 else 0))"
| "py_float W (PStr s) = (case float_of_str W s of None \<Rightarrow> Inl ValueError | Some f \<Rightarrow> Inr f)"
| "py_float W _ = Inl TypeError"

section \<open>What the user sees and what goes over the network\<close>

datatype event =
    GeocodeGet string
  | OverpassPost nat pyval pyval
  | StWarning string
  | StError exn

section \<open>geocode_location\<close>

text \<open>
  Lines 32-40. The request is keyed by the query (\<^verbatim>\<open>quote\<close> is injective); nothing
  is caught, so an exception of \<^verbatim>\<open>requests.get\<close>, of \<^verbatim>\<open>.json()\<close>, of the
  subscripts or of \<^verbatim>\<open>float\<close> leaves the function.
\<close>

definition geocode_location :: "world \<Rightarrow> string \<Rightarrow> exn + (pyval \<times> pyval)" where
  "geocode_location W query =
     bind_exn (nominatim W query) (\<lambda>geo_res.
       if status_code geo_res = 200 then
         bind_exn (json geo_res) (\<lambda>geo_data.
           if truthy geo_data then
             bind_exn (subscript_zero geo_data) (\<lambda>first.
             bind_exn (subscript_key first ''lat'') (\<lambda>la.
             bind_exn (py_float W la) (\<lambda>lat.
             bind_exn (subscript_zero geo_data) (\<lambda>first'.
             bind_exn (subscript_key first' ''lon'') (\<lambda>lo.
             bind_exn (py_float W lo) (\<lambda>lon.
               Inr (PFloat lat, PFloat lon)))))))
           else Inr (PNone, PNone))
       else Inr (PNone, PNone))"

section \<open>fetch_nearby_restaurants\<close>

record restaurant =
  r_name :: pyval
  r_lat :: pyval
  r_lon :: pyval
  r_address :: string
  r_cuisine :: pyval

text \<open>\<^verbatim>\<open>sep.join(items)\<close>: every item must be a str.\<close>

fun str_join :: "string \<Rightarrow> string list \<Rightarrow> string" where
  "str_join sep [] = []"
| "str_join sep [x] = x"
| "str_join sep (x # y # ys) = x @ sep @ str_join sep (y # ys)"

fun str_items :: "pyval list \<Rightarrow> exn + string list" where
  "str_items [] = Inr []"
| "str_items (PStr s # vs) = bind_exn (str_items vs) (\<lambda>ss. Inr (s # ss))"
| "str_items (_ # vs) = Inl TypeError"

definition py_join :: "string \<Rightarrow> pyval list \<Rightarrow> exn + string" where
  "py_join sep items = bind_exn (str_items items) (\<lambda>ss. Inr (str_join sep ss))"

text \<open>The body of the loop, lines 57-73: one raw element to one record.\<close>

definition element_record :: "pyval \<Rightarrow> exn + restaurant" where
  "element_record element =
     bind_exn (dict_get element ''tags'' (PDict [])) (\<lambda>tags.
     bind_exn (dict_get tags ''name'' (PStr ''Unnamed'')) (\<lambda>name.
     bind_exn (dict_get tags ''cuisine'' (PStr ''Unknown cuisine'')) (\<lambda>cuisine_raw.
     bind_exn (dict_get element ''lat'' PNone) (\<lambda>lat_r.
     bind_exn (dict_get element ''lon'' PNone) (\<lambda>lon_r.
     bind_exn (dict_get tags ''addr:street'' (PStr [])) (\<lambda>street.
     bind_exn (dict_get tags ''addr:housenumber'' (PStr [])) (\<lambda>housenumber.
     bind_exn (dict_get tags ''addr:city'' (PStr [])) (\<lambda>city.
     bind_exn (dict_get tags ''addr:postcode'' (PStr [])) (\<lambda>postcode.
     bind_exn (py_join '', '' (filter truthy [housenumber, street, city, postcode])) (\<lambda>address.
       Inr \<lparr>r_name = name, r_lat = lat_r, r_lon = lon_r,
            r_address = address, r_cuisine = cuisine_raw\<rparr>))))))))))"

text \<open>\<^verbatim>\<open>for element in xs\<close>: what iterating a JSON value yields.\<close>

fun py_iter :: "pyval \<Rightarrow> exn + pyval list" where
  "py_iter (PList xs) = Inr xs"
| "py_iter (PDict kvs) = Inr (map (\<lambda>kv. PStr (fst kv)) kvs)"
| "py_iter (PStr s) = Inr (map (\<lambda>c. PStr [c]) s)"
| "py_iter _ = Inl TypeError"

text \<open>The loop of lines 55-73, with the list \<^verbatim>\<open>restaurants\<close> it appends to.\<close>

fun normalize_loop :: "pyval list \<Rightarrow> restaurant list \<Rightarrow> exn + restaurant list" where
  "normalize_loop [] restaurants = Inr restaurants"
| "normalize_loop (element # rest) restaurants =
     bind_exn (element_record element) (\<lambda>r. normalize_loop rest (restaurants @ [r]))"

text \<open>The \<^verbatim>\<open>try\<close> block, lines 53-74. The status code is not looked at.\<close>

definition fetch_try :: "world \<Rightarrow> pyval \<Rightarrow> pyval \<Rightarrow> nat \<Rightarrow> exn + restaurant list" where
  "fetch_try W lat lon radius =
     bind_exn (overpass W radius lat lon) (\<lambda>response.
     bind_exn (json response) (\<lambda>data.
     bind_exn (dict_get data ''elements'' (PList [])) (\<lambda>elements.
     bind_exn (py_iter elements) (\<lambda>es.
       normalize_loop es []))))"

text \<open>Lines 43-77: \<^verbatim>\<open>except Exception\<close> reports the exception and returns \<^verbatim>\<open>[]\<close>.\<close>

definition fetch_nearby_restaurants ::
    "world \<Rightarrow> pyval \<Rightarrow> pyval \<Rightarrow> nat \<Rightarrow> restaurant list \<times> event list" where
  "fetch_nearby_restaurants W lat lon radius =
     (case fetch_try W lat lon radius of
        Inl e \<Rightarrow> ([], [OverpassPost radius lat lon, StError e])
      | Inr restaurants \<Rightarrow> (restaurants, [OverpassPost radius lat lon]))"

section \<open>Session state and the update on submit\<close>

record session =
  location_name :: string
  lat :: pyval
  lon :: pyval
  zoom :: int
  restaurants :: "restaurant list"

text \<open>Lines 15-24: the values of a fresh session; the floats are the exact doubles.\<close>

definition fresh_session :: session where
  "fresh_session =
     \<lparr>location_name = ''Seattle, Washington, USA'',
      lat = PFloat (Finite (837497127267677 / 17592186044416)),
      lon = PFloat (Finite (- 4304178124808205 / 35184372088832)),
      zoom = 12,
      restaurants = []\<rparr>"

text \<open>
  Lines 80-95. The result is the session as the block leaves it, the events in order,
  and the exception that ended the run, if one did.
\<close>

definition update_location ::
    "world \<Rightarrow> bool \<Rightarrow> string \<Rightarrow> session \<Rightarrow> session \<times> event list \<times> exn option" where
  "update_location W submitted user_input st =
     (if submitted \<and> user_input \<noteq> [] then
        (case geocode_location W user_input of
           Inl e \<Rightarrow> (st, [GeocodeGet user_input], Some e)
         | Inr (la, lo) \<Rightarrow>
             if truthy la \<and> truthy lo then
               (case fetch_nearby_restaurants W la lo 7500 of
                  (rs, evs) \<Rightarrow>
                    (st\<lparr>lat := la, lon := lo, location_name := user_input, restaurants := rs\<rparr>,
                     GeocodeGet user_input # evs, None))
             else
               (st, [GeocodeGet user_input,
                     StWarning ''Location not found. Keeping previous location.''], None))
      else if restaurants st = [] then
        (case fetch_nearby_restaurants W (lat st) (lon st) 7500 of
           (rs, evs) \<Rightarrow> (st\<lparr>restaurants := rs\<rparr>, evs, None))
      else (st, [], None))"

section \<open>Strings\<close>

text \<open>
  \<^verbatim>\<open>str.isspace\<close> and \<^verbatim>\<open>str.lower\<close> as they are on the code points below
  256. Beyond them Python's \<^verbatim>\<open>lower\<close> looks at the context of a letter (the final
  sigma) and may change the length of a string, so the statements below speak of
  \<open>lower\<close> applied to a whole string and use no property of it.
\<close>

definition isspace :: "char \<Rightarrow> bool" where
  "isspace c = (of_char c \<in> {9, 10, 11, 12, 13, 28, 29, 30, 31, 32, 133, 160 :: nat})"

definition lower_char :: "char \<Rightarrow> char" where
  "lower_char c =
     (let n = of_char c :: nat in
      if 65 \<le> n \<and> n \<le> 90 then char_of (n + 32)
      else if 192 \<le> n \<and> n \<le> 222 \<and> n \<noteq> 215 then char_of (n + 32)
      else c)"

definition lower :: "string \<Rightarrow> string" where
  "lower s = map lower_char s"

definition strip :: "string \<Rightarrow> string" where
  "strip s = rev (dropWhile isspace (rev (dropWhile isspace s)))"

definition replace_char :: "char \<Rightarrow> char \<Rightarrow> string \<Rightarrow> string" where
  "replace_char old new s = map (\<lambda>c. if c = old then new else c) s"

text \<open>\<^verbatim>\<open>s.split(d)\<close> for a one-character separator: one part more than separators.\<close>

fun split_on :: "char \<Rightarrow> string \<Rightarrow> string list" where
  "split_on d [] = [[]]"
| "split_on d (c # cs) =
     (if c = d then [] # split_on d cs
      else (case split_on d cs of
              [] \<Rightarrow> [[c]]
            | p # ps \<Rightarrow> (c # p) # ps))"

text \<open>\<^verbatim>\<open>sub in s\<close> on strings.\<close>

fun starts_with :: "string \<Rightarrow> string \<Rightarrow> bool" where
  "starts_with [] s = True"
| "starts_with (p # ps) [] = False"
| "starts_with (p # ps) (c # cs) = (p = c \<and> starts_with ps cs)"

fun str_in :: "string \<Rightarrow> string \<Rightarrow> bool" where
  "str_in sub [] = (sub = [])"
| "str_in sub (c # cs) = (starts_with sub (c # cs) \<or> str_in sub cs)"

section \<open>Cuisine labels\<close>

text \<open>Lines 107-109, the inner loop over the parts of one raw cuisine field.\<close>

fun add_parts :: "string list \<Rightarrow> string set \<Rightarrow> string set" where
  "add_parts [] cuisines = cuisines"
| "add_parts (c # parts) cuisines =
     add_parts parts
       (if c \<noteq> [] \<and> lower c \<noteq> ''unknown cuisine'' then insert c cuisines else cuisines)"

definition cuisine_parts :: "string \<Rightarrow> string list" where
  "cuisine_parts raw_cuisine =
     map strip (split_on CHR '','' (replace_char CHR '';'' CHR '','' raw_cuisine))"

text \<open>Lines 102-109. A cuisine field that is not a str has no \<^verbatim>\<open>replace\<close>.\<close>

fun cuisine_loop :: "restaurant list \<Rightarrow> string set \<Rightarrow> exn + string set" where
  "cuisine_loop [] cuisines = Inr cuisines"
| "cuisine_loop (r # rs) cuisines =
     (case r_cuisine r of
        PStr raw_cuisine \<Rightarrow> cuisine_loop rs (add_parts (cuisine_parts raw_cuisine) cuisines)
      | _ \<Rightarrow> Inl AttributeError)"

definition extract_cuisines :: "restaurant list \<Rightarrow> exn + string set" where
  "extract_cuisines rs = cuisine_loop rs {}"

section \<open>Cuisine filter\<close>

text \<open>Lines 118-120, the list comprehension.\<close>

fun filter_loop :: "string \<Rightarrow> restaurant list \<Rightarrow> exn + restaurant list" where
  "filter_loop selected_cuisine [] = Inr []"
| "filter_loop selected_cuisine (r # rs) =
     (case r_cuisine r of
        PStr c \<Rightarrow>
          bind_exn (filter_loop selected_cuisine rs) (\<lambda>out.
            Inr (if str_in (lower selected_cuisine) (lower c) then r # out else out))
      | _ \<Rightarrow> Inl AttributeError)"

text \<open>Lines 117-122.\<close>

definition cuisine_filter :: "restaurant list \<Rightarrow> string \<Rightarrow> exn + restaurant list" where
  "cuisine_filter rs selected_cuisine =
     (if selected_cuisine \<noteq> ''All cuisines'' then filter_loop selected_cuisine rs
      else Inr rs)"

section \<open>One run of the script\<close>

text \<open>
  Lines 80-122: the update, the label set with its warning, the filter. The choice in
  the select box is an input of the run. Drawing the map is left to folium.
\<close>

definition rerun ::
    "world \<Rightarrow> bool \<Rightarrow> string \<Rightarrow> string \<Rightarrow> session
       \<Rightarrow> session \<times> event list \<times> (exn + restaurant list)" where
  "rerun W submitted user_input selected_cuisine st =
     (case update_location W submitted user_input st of
        (st', evs, Some e) \<Rightarrow> (st', evs, Inl e)
      | (st', evs, None) \<Rightarrow>
          (case extract_cuisines (restaurants st') of
             Inl e \<Rightarrow> (st', evs, Inl e)
           | Inr cuisines \<Rightarrow>
               (st',
                evs @ (if cuisines = {}
                       then [StWarning ''No cuisine types found in the current data.'']
                       else []),
                cuisine_filter (restaurants st') selected_cuisine)))"

section \<open>The specification's words, and sample data\<close>

text \<open>
  From the specification, section 4.5: a string "contains" another "as a substring"
  when the other occurs in it as one contiguous stretch. The filter makes the test
  case-insensitive by lower-casing both strings first.
\<close>

definition spec_substring :: "string \<Rightarrow> string \<Rightarrow> bool" where
  "spec_substring sub s = (\<exists>pre post. s = pre @ sub @ post)"

text \<open>The text of a tag: empty when the tag is absent (or not a str).\<close>

definition tag_text :: "(string \<times> pyval) list \<Rightarrow> string \<Rightarrow> string" where
  "tag_text tags k = (case map_of tags k of Some (PStr s) \<Rightarrow> s | _ \<Rightarrow> [])"

definition sample_record :: "string \<Rightarrow> restaurant" where
  "sample_record c =
     \<lparr>r_name = PStr ''Da Mario'', r_lat = PFloat (Finite 47), r_lon = PFloat (Finite (- 122)),
      r_address = ''12, Pine Street'', r_cuisine = PStr c\<rparr>"

definition sample_element :: pyval where
  "sample_element =
     PDict [(''type'', PStr ''node''),
            (''lat'', PFloat (Finite 47)),
            (''lon'', PFloat (Finite (- 122))),
            (''tags'', PDict [(''amenity'', PStr ''restaurant''),
                              (''addr:street'', PStr ''Pine Street''),
                              (''addr:housenumber'', PStr ''12''),
                              (''cuisine'', PStr ''italian;pizza'')])]"

text \<open>An element of the response that carries tags but no coordinates.\<close>

definition bare_element :: pyval where
  "bare_element = PDict [(''tags'', PDict [(''name'', PStr ''Da Mario'')])]"

text \<open>A session that has moved away from the default location.\<close>

definition paris_session :: session where
  "paris_session =
     \<lparr>location_name = ''Paris'', lat = PFloat (Finite 48), lon = PFloat (Finite 2),
      zoom = 12, restaurants = [sample_record ''french'']\<rparr>"

text \<open>A network that is down: both requests raise.\<close>

definition offline_world :: world where
  "offline_world =
     \<lparr>float_of_str = (\<lambda>s. None), float_of_int = (\<lambda>i. None),
      nominatim = (\<lambda>q. Inl RequestException),
      overpass = (\<lambda>radius la lo. Inl RequestException)\<rparr>"

text \<open>
  A geocoder that resolves every query to a point on the equator, latitude "0.0" and
  longitude "10.5", and a POI service that knows no restaurant.
\<close>

definition equator_world :: world where
  "equator_world =
     \<lparr>float_of_str = (\<lambda>s. if s = ''0.0'' then Some (Finite 0)
                          else if s = ''10.5'' then Some (Finite (21 / 2)) else None),
      float_of_int = (\<lambda>i. None),
      nominatim = (\<lambda>q. Inr \<lparr>status_code = 200,
         json = Inr (PList [PDict [(''lat'', PStr ''0.0''), (''lon'', PStr ''10.5'')]])\<rparr>),
      overpass = (\<lambda>radius la lo. Inr \<lparr>status_code = 200,
         json = Inr (PDict [(''elements'', PList [])])\<rparr>)\<rparr>"

text \<open>
  A geocoder that finds Paris, and a POI service that answers with a page that is not
  JSON, as an overloaded server does.
\<close>

definition busy_world :: world where
  "busy_world =
     \<lparr>float_of_str = (\<lambda>s. if s = ''48.5'' then Some (Finite (97 / 2))
                          else if s = ''2.25'' then Some (Finite (9 / 4)) else None),
      float_of_int = (\<lambda>i. None),
      nominatim = (\<lambda>q. Inr \<lparr>status_code = 200,
         json = Inr (PList [PDict [(''lat'', PStr ''48.5''), (''lon'', PStr ''2.25'')]])\<rparr>),
      overpass = (\<lambda>radius la lo. Inr \<lparr>status_code = 504, json = Inl JSONDecodeError\<rparr>)\<rparr>"

text \<open>A geocoder that has no candidate for any query.\<close>

definition nowhere_world :: world where
  "nowhere_world =
     \<lparr>float_of_str = (\<lambda>s. None), float_of_int = (\<lambda>i. None),
      nominatim = (\<lambda>q. Inr \<lparr>status_code = 200, json = Inr (PList [])\<rparr>),
      overpass = (\<lambda>radius la lo. Inr \<lparr>status_code = 200,
         json = Inr (PDict [(''elements'', PList [])])\<rparr>)\<rparr>"

section \<open>Strings: substring search and splitting\<close>

lemma starts_with_iff: "starts_with p s \<longleftrightarrow> (\<exists>post. s = p @ post)"
  by (induction p s rule: starts_with.induct) auto

lemma str_in_iff: "str_in sub s \<longleftrightarrow> (\<exists>pre post. s = pre @ sub @ post)"
proof (induction s)
  case Nil
  show ?case by auto
next
  case (Cons c cs)
  have "(\<exists>pre post. c # cs = pre @ sub @ post) \<longleftrightarrow>
        (\<exists>post. c # cs = sub @ post) \<or> (\<exists>pre post. cs = pre @ sub @ post)"
  proof
    assume "\<exists>pre post. c # cs = pre @ sub @ post"
    then obtain pre post where e: "c # cs = pre @ sub @ post" by blast
    show "(\<exists>post. c # cs = sub @ post) \<or> (\<exists>pre post. cs = pre @ sub @ post)"
    proof (cases pre)
      case Nil
      with e show ?thesis by auto
    next
      case (Cons a pre')
      with e have "cs = pre' @ sub @ post" by simp
      then show ?thesis by blast
    qed
  next
    assume "(\<exists>post. c # cs = sub @ post) \<or> (\<exists>pre post. cs = pre @ sub @ post)"
    then show "\<exists>pre post. c # cs = pre @ sub @ post"
    proof
      assume "\<exists>post. c # cs = sub @ post"
      then obtain post where "c # cs = [] @ sub @ post" by auto
      then show ?thesis by blast
    next
      assume "\<exists>pre post. cs = pre @ sub @ post"
      then obtain pre post where "cs = pre @ sub @ post" by blast
      then have "c # cs = (c # pre) @ sub @ post" by simp
      then show ?thesis by blast
    qed
  qed
  with Cons show ?case by (simp add: starts_with_iff)
qed

lemma str_in_substring: "str_in sub s \<longleftrightarrow> spec_substring sub s"
  by (simp add: str_in_iff spec_substring_def)

lemma split_on_not_Nil: "split_on d s \<noteq> []"
  by (induction s) (auto split: list.splits)

lemma split_on_join: "str_join [d] (split_on d s) = s"
proof (induction s)
  case Nil
  show ?case by simp
next
  case (Cons c cs)
  obtain p ps where ps: "split_on d cs = p # ps"
    using split_on_not_Nil [of d cs] by (cases "split_on d cs") auto
  with Cons show ?case by (cases ps) auto
qed

lemma split_on_no_separator: "p \<in> set (split_on d s) \<Longrightarrow> d \<notin> set p"
  by (induction s arbitrary: p) (auto split: if_splits list.splits)

section \<open>The loops\<close>

lemma bind_exn_InrE:
  assumes "bind_exn m f = Inr y"
  obtains x where "m = Inr x" and "f x = Inr y"
  using assms by (cases m) auto

lemma filter_loop_strs:
  "\<forall>r\<in>set rs. \<exists>s. r_cuisine r = PStr s \<Longrightarrow>
   filter_loop selection rs =
     Inr (filter (\<lambda>r. \<exists>s. r_cuisine r = PStr s \<and> str_in (lower selection) (lower s)) rs)"
  by (induction rs) auto

lemma filter_loop_not_str:
  "\<exists>r\<in>set rs. \<forall>s. r_cuisine r \<noteq> PStr s \<Longrightarrow> filter_loop selection rs = Inl AttributeError"
proof (induction rs)
  case Nil
  then show ?case by simp
next
  case (Cons r rs)
  show ?case
  proof (cases "r_cuisine r")
    case (PStr c)
    with Cons.prems have "\<exists>r\<in>set rs. \<forall>s. r_cuisine r \<noteq> PStr s" by auto
    with Cons.IH PStr show ?thesis by simp
  qed simp_all
qed

lemma add_parts_eq:
  "add_parts parts S = S \<union> {c \<in> set parts. c \<noteq> [] \<and> lower c \<noteq> ''unknown cuisine''}"
  by (induction parts arbitrary: S) auto

lemma cuisine_loop_strs:
  "\<forall>r\<in>set rs. \<exists>raw. r_cuisine r = PStr raw \<Longrightarrow>
   cuisine_loop rs S =
     Inr (S \<union> {c. \<exists>r\<in>set rs. \<exists>raw. r_cuisine r = PStr raw \<and> c \<in> set (cuisine_parts raw)
                   \<and> c \<noteq> [] \<and> lower c \<noteq> ''unknown cuisine''})"
proof (induction rs arbitrary: S)
  case Nil
  show ?case by simp
next
  case (Cons r rs)
  from Cons.prems obtain raw where raw: "r_cuisine r = PStr raw" by auto
  from Cons.prems have "\<forall>r\<in>set rs. \<exists>raw. r_cuisine r = PStr raw" by simp
  from Cons.IH [OF this] raw show ?case
    by (auto simp: add_parts_eq)
qed

lemma cuisine_loop_labels:
  "cuisine_loop rs S = Inr L \<Longrightarrow> [] \<notin> S \<Longrightarrow> \<forall>c\<in>S. lower c \<noteq> ''unknown cuisine'' \<Longrightarrow>
   [] \<notin> L \<and> (\<forall>c\<in>L. lower c \<noteq> ''unknown cuisine'')"
proof (induction rs arbitrary: S)
  case Nil
  then show ?case by simp
next
  case (Cons r rs)
  from Cons.prems(1) obtain raw where raw: "r_cuisine r = PStr raw"
    and loop: "cuisine_loop rs (add_parts (cuisine_parts raw) S) = Inr L"
    by (cases "r_cuisine r") auto
  have "[] \<notin> add_parts (cuisine_parts raw) S"
    using Cons.prems(2) by (simp add: add_parts_eq)
  moreover have "\<forall>c\<in>add_parts (cuisine_parts raw) S. lower c \<noteq> ''unknown cuisine''"
    using Cons.prems(3) by (auto simp: add_parts_eq)
  ultimately show ?case using Cons.IH [OF loop] by blast
qed

lemma normalize_loop_records:
  "normalize_loop es acc = Inr rs \<Longrightarrow>
   \<exists>new. rs = acc @ new \<and> list_all2 (\<lambda>e r. element_record e = Inr r) es new"
proof (induction es arbitrary: acc)
  case Nil
  then show ?case by simp
next
  case (Cons e es)
  from Cons.prems obtain r where r: "element_record e = Inr r"
    and rest: "normalize_loop es (acc @ [r]) = Inr rs"
    by (auto elim: bind_exn_InrE)
  from Cons.IH [OF rest] obtain new where
    "rs = (acc @ [r]) @ new" "list_all2 (\<lambda>e r. element_record e = Inr r) es new" by blast
  with r have "rs = acc @ (r # new) \<and> list_all2 (\<lambda>e r. element_record e = Inr r) (e # es) (r # new)"
    by simp
  then show ?case by blast
qed

lemma normalize_loop_total:
  "list_all2 (\<lambda>e r. element_record e = Inr r) es new \<Longrightarrow> normalize_loop es acc = Inr (acc @ new)"
  by (induction es new arbitrary: acc rule: list_all2_induct) auto

lemma element_record_coordinates:
  assumes "element_record e = Inr r"
  shows "dict_get e ''lat'' PNone = Inr (r_lat r) \<and> dict_get e ''lon'' PNone = Inr (r_lon r)"
  using assms unfolding element_record_def
  by (elim bind_exn_InrE) auto

lemma str_items_filter:
  "str_items (filter truthy (map PStr ss)) = Inr (filter (\<lambda>s. s \<noteq> []) ss)"
  by (induction ss) auto

lemma py_join_four:
  "py_join sep (filter truthy [PStr a, PStr b, PStr c, PStr d]) =
     Inr (str_join sep (filter (\<lambda>s. s \<noteq> []) [a, b, c, d]))"
  using str_items_filter [of "[a, b, c, d]"] by (simp add: py_join_def)

lemma tag_get_text:
  "\<forall>v. map_of tags k = Some v \<longrightarrow> (\<exists>s. v = PStr s) \<Longrightarrow>
   (case map_of tags k of None \<Rightarrow> PStr [] | Some v \<Rightarrow> v) = PStr (tag_text tags k)"
  by (auto simp: tag_text_def split: option.splits)

section \<open>The update on submit\<close>

lemma geocode_not_found:
  assumes "nominatim W query = Inr geo_res"
    and "status_code geo_res = 200 \<Longrightarrow> \<exists>geo_data. json geo_res = Inr geo_data \<and> \<not> truthy geo_data"
  shows "geocode_location W query = Inr (PNone, PNone)"
  using assms by (auto simp: geocode_location_def)

lemma update_location_not_found:
  assumes "user_input \<noteq> []" and "geocode_location W user_input = Inr (PNone, PNone)"
  shows "update_location W True user_input st =
           (st, [GeocodeGet user_input,
                 StWarning ''Location not found. Keeping previous location.''], None)"
  using assms by (simp add: update_location_def)

lemma update_location_accepts:
  assumes "user_input \<noteq> []" and "geocode_location W user_input = Inr (la, lo)"
    and "truthy la" and "truthy lo"
  shows "update_location W True user_input st =
           (st\<lparr>lat := la, lon := lo, location_name := user_input,
               restaurants := fst (fetch_nearby_restaurants W la lo 7500)\<rparr>,
            GeocodeGet user_input # snd (fetch_nearby_restaurants W la lo 7500), None)"
  using assms by (simp add: update_location_def split: prod.splits)

lemma update_location_no_submit:
  assumes "\<not> submitted \<or> user_input = []"
  shows "update_location W submitted user_input st =
           (if restaurants st = []
            then (st\<lparr>restaurants := fst (fetch_nearby_restaurants W (lat st) (lon st) 7500)\<rparr>,
                  snd (fetch_nearby_restaurants W (lat st) (lon st) 7500), None)
            else (st, [], None))"
  using assms by (auto simp: update_location_def split: prod.splits)

lemma pizza_not_in_pizzeria:
  "cuisine_filter [sample_record ''Pizzeria;regional''] ''pizza'' = Inr []"
  by (simp add: cuisine_filter_def sample_record_def lower_def lower_char_def)

section \<open>The claims\<close>

text \<open>
  Claim C1, at an input where it fails: the geocoder answers with status 200 and one
  candidate, latitude "0.0" and longitude "10.5", which \<open>geocode_location\<close> returns as
  floats, and the update keeps the old coordinates, name and records and warns that
  the location was not found.
\<close>

theorem C1_zero_latitude_not_accepted:
  "geocode_location equator_world ''Equator'' = Inr (PFloat (Finite 0), PFloat (Finite (21 / 2)))
   \<and> update_location equator_world True ''Equator'' paris_session =
       (paris_session,
        [GeocodeGet ''Equator'', StWarning ''Location not found. Keeping previous location.''],
        None)"
  by (simp add: geocode_location_def equator_world_def update_location_def)

text \<open>
  Claim C2, at an input where it fails: when the request to the geocoder raises, the
  exception leaves \<open>geocode_location\<close> and ends the run; the session is unchanged,
  but no warning is shown.
\<close>

theorem C2_transport_error_not_caught:
  "update_location offline_world True ''Seattle'' paris_session =
     (paris_session, [GeocodeGet ''Seattle''], Some RequestException)
   \<and> rerun offline_world True ''Seattle'' ''All cuisines'' paris_session =
     (paris_session, [GeocodeGet ''Seattle''], Inl RequestException)"
  by (simp add: rerun_def update_location_def geocode_location_def offline_world_def)

text \<open>
  Claim C3 as stated fails on its example: "pizza" is not a substring of
  "pizzeria;regional", so the record is left out.
\<close>

theorem C3_pizzeria_counterexample:
  "cuisine_filter [sample_record ''Pizzeria;regional''] ''pizza'' = Inr []"
  by (rule pizza_not_in_pizzeria)

text \<open>
  Claim C3, amended: for every sequence of records (with str cuisine fields) and every
  selection other than "All cuisines", the filter returns, in order, exactly the records
  whose raw cuisine field, lower-cased, contains the lower-cased selection as a
  substring. The match is against the raw field and not a label: "pizz" selects a record
  with the field "Pizzeria;regional", while "pizza" does not.
\<close>

theorem C3_filter_substring:
  assumes "selection \<noteq> ''All cuisines''"
    and "\<forall>r\<in>set rs. \<exists>raw. r_cuisine r = PStr raw"
  shows "cuisine_filter rs selection =
           Inr (filter (\<lambda>r. \<exists>raw. r_cuisine r = PStr raw
                          \<and> spec_substring (lower selection) (lower raw)) rs)
         \<and> cuisine_filter [sample_record ''Pizzeria;regional''] ''pizz'' =
             Inr [sample_record ''Pizzeria;regional'']
         \<and> cuisine_filter [sample_record ''Pizzeria;regional''] ''pizza'' = Inr []"
proof -
  have "cuisine_filter rs selection = filter_loop selection rs"
    using assms(1) by (simp add: cuisine_filter_def)
  also have "\<dots> = Inr (filter (\<lambda>r. \<exists>raw. r_cuisine r = PStr raw
                 \<and> str_in (lower selection) (lower raw)) rs)"
    using assms(2) by (rule filter_loop_strs)
  finally have general: "cuisine_filter rs selection =
      Inr (filter (\<lambda>r. \<exists>raw. r_cuisine r = PStr raw
                     \<and> spec_substring (lower selection) (lower raw)) rs)"
    by (simp only: str_in_substring)
  have pizz: "cuisine_filter [sample_record ''Pizzeria;regional''] ''pizz'' =
                Inr [sample_record ''Pizzeria;regional'']"
    by (simp add: cuisine_filter_def sample_record_def lower_def lower_char_def
          char_of_def bit_0)
  from general pizz pizza_not_in_pizzeria show ?thesis by blast
qed

theorem C3_filter_substring_witness:
  "''pizz'' \<noteq> ''All cuisines''
   \<and> r_cuisine (sample_record ''Pizzeria;regional'') = PStr ''Pizzeria;regional''
   \<and> r_cuisine (sample_record ''sushi'') = PStr ''sushi''
   \<and> cuisine_filter [sample_record ''Pizzeria;regional'', sample_record ''sushi''] ''pizz'' =
       Inr (filter (\<lambda>r. \<exists>raw. r_cuisine r = PStr raw
                      \<and> spec_substring (lower ''pizz'') (lower raw))
              [sample_record ''Pizzeria;regional'', sample_record ''sushi''])"
proof -
  have h1: "''pizz'' \<noteq> ''All cuisines''" by simp
  have h2: "\<forall>r\<in>set [sample_record ''Pizzeria;regional'', sample_record ''sushi''].
              \<exists>raw. r_cuisine r = PStr raw"
    by (simp add: sample_record_def)
  have h3: "r_cuisine (sample_record ''Pizzeria;regional'') = PStr ''Pizzeria;regional''
      \<and> r_cuisine (sample_record ''sushi'') = PStr ''sushi''"
    by (simp add: sample_record_def)
  from C3_filter_substring [OF h1 h2] h1 h3 show ?thesis by blast
qed

text \<open>
  Claim C4 as stated fails: the lower-case "all cuisines" is not the sentinel, it is
  searched for in the cuisine fields.
\<close>

theorem C4_lowercase_sentinel_counterexample:
  "cuisine_filter [sample_record ''pizza''] ''all cuisines'' = Inr []"
  by (simp add: cuisine_filter_def sample_record_def lower_def lower_char_def)

text \<open>
  Claim C4, amended: for every record sequence, the filter with the selection
  "All cuisines" (capital A, compared case-sensitively) returns its input: the same
  elements in the same order.
\<close>

theorem C4_sentinel_identity: "cuisine_filter rs ''All cuisines'' = Inr rs"
  by (simp add: cuisine_filter_def)

text \<open>
  Claim C5: for every sequence of records (with str cuisine fields), the label set is
  made of the parts of the raw cuisine fields, with ';' replaced by ',', split on ','
  and trimmed, that are neither empty nor, in lower case, "unknown cuisine"; no result
  of the extractor holds the empty string or a case variant of "unknown cuisine"; one
  record with the field "Italian; Pizza, Vegan" gives the set of Italian, Pizza, Vegan.
\<close>

theorem C5_extract_cuisines:
  "((\<forall>r\<in>set rs. \<exists>raw. r_cuisine r = PStr raw) \<longrightarrow>
      extract_cuisines rs =
        Inr {c. \<exists>r\<in>set rs. \<exists>raw. r_cuisine r = PStr raw
                \<and> c \<in> strip ` set (split_on CHR '','' (replace_char CHR '';'' CHR '','' raw))
                \<and> c \<noteq> [] \<and> lower c \<noteq> ''unknown cuisine''})
   \<and> (\<forall>labels. extract_cuisines rs = Inr labels \<longrightarrow>
         [] \<notin> labels \<and> (\<forall>c\<in>labels. lower c \<noteq> ''unknown cuisine''))
   \<and> extract_cuisines [sample_record ''Italian; Pizza, Vegan''] =
       Inr {''Italian'', ''Pizza'', ''Vegan''}"
proof (intro conjI impI allI)
  assume "\<forall>r\<in>set rs. \<exists>raw. r_cuisine r = PStr raw"
  then show "extract_cuisines rs =
        Inr {c. \<exists>r\<in>set rs. \<exists>raw. r_cuisine r = PStr raw
                \<and> c \<in> strip ` set (split_on CHR '','' (replace_char CHR '';'' CHR '','' raw))
                \<and> c \<noteq> [] \<and> lower c \<noteq> ''unknown cuisine''}"
    by (simp add: extract_cuisines_def cuisine_loop_strs cuisine_parts_def)
next
  fix labels
  assume "extract_cuisines rs = Inr labels"
  then have "cuisine_loop rs {} = Inr labels" by (simp add: extract_cuisines_def)
  from cuisine_loop_labels [OF this] show "[] \<notin> labels" by simp
  from cuisine_loop_labels [OF \<open>cuisine_loop rs {} = Inr labels\<close>]
  show "\<forall>c\<in>labels. lower c \<noteq> ''unknown cuisine''" by simp
next
  show "extract_cuisines [sample_record ''Italian; Pizza, Vegan''] =
          Inr {''Italian'', ''Pizza'', ''Vegan''}"
    by (simp add: extract_cuisines_def sample_record_def cuisine_parts_def replace_char_def
          strip_def isspace_def lower_def lower_char_def insert_commute)
qed

theorem C5_extract_cuisines_witness:
  "r_cuisine (sample_record ''Italian; Pizza, Vegan'') = PStr ''Italian; Pizza, Vegan''
   \<and> extract_cuisines [sample_record ''Italian; Pizza, Vegan''] =
       Inr {''Italian'', ''Pizza'', ''Vegan''}
   \<and> [] \<notin> {''Italian'', ''Pizza'', ''Vegan''}
   \<and> lower ''Italian'' \<noteq> ''unknown cuisine''
   \<and> lower ''Pizza'' \<noteq> ''unknown cuisine''
   \<and> lower ''Vegan'' \<noteq> ''unknown cuisine''"
proof -
  have h: "r_cuisine (sample_record ''Italian; Pizza, Vegan'') = PStr ''Italian; Pizza, Vegan''"
    by (simp add: sample_record_def)
  note c5 = C5_extract_cuisines [of "[sample_record ''Italian; Pizza, Vegan'']"]
  from c5 have ex: "extract_cuisines [sample_record ''Italian; Pizza, Vegan''] =
       Inr {''Italian'', ''Pizza'', ''Vegan''}" by blast
  from c5 ex have "[] \<notin> {''Italian'', ''Pizza'', ''Vegan''}
      \<and> (\<forall>c\<in>{''Italian'', ''Pizza'', ''Vegan''}. lower c \<noteq> ''unknown cuisine'')"
    by blast
  with h ex show ?thesis by simp
qed

lemma element_record_dict:
  assumes tags: "map_of kvs ''tags'' = None \<and> tags = [] \<or> map_of kvs ''tags'' = Some (PDict tags)"
    and addr: "\<forall>k\<in>set [''addr:housenumber'', ''addr:street'', ''addr:city'', ''addr:postcode''].
                 \<forall>v. map_of tags k = Some v \<longrightarrow> (\<exists>s. v = PStr s)"
  shows "element_record (PDict kvs) =
           Inr \<lparr>r_name = (case map_of tags ''name'' of None \<Rightarrow> PStr ''Unnamed'' | Some v \<Rightarrow> v),
                r_lat = (case map_of kvs ''lat'' of None \<Rightarrow> PNone | Some v \<Rightarrow> v),
                r_lon = (case map_of kvs ''lon'' of None \<Rightarrow> PNone | Some v \<Rightarrow> v),
                r_address = str_join '', '' (filter (\<lambda>s. s \<noteq> [])
                  (map (tag_text tags)
                     [''addr:housenumber'', ''addr:street'', ''addr:city'', ''addr:postcode''])),
                r_cuisine = (case map_of tags ''cuisine'' of
                               None \<Rightarrow> PStr ''Unknown cuisine'' | Some v \<Rightarrow> v)\<rparr>"
proof -
  have t: "(case map_of kvs ''tags'' of None \<Rightarrow> PDict [] | Some v \<Rightarrow> v) = PDict tags"
    using tags by auto
  have hn: "(case map_of tags ''addr:housenumber'' of None \<Rightarrow> PStr [] | Some v \<Rightarrow> v) =
              PStr (tag_text tags ''addr:housenumber'')"
    using addr by (intro tag_get_text) simp
  have st: "(case map_of tags ''addr:street'' of None \<Rightarrow> PStr [] | Some v \<Rightarrow> v) =
              PStr (tag_text tags ''addr:street'')"
    using addr by (intro tag_get_text) simp
  have ci: "(case map_of tags ''addr:city'' of None \<Rightarrow> PStr [] | Some v \<Rightarrow> v) =
              PStr (tag_text tags ''addr:city'')"
    using addr by (intro tag_get_text) simp
  have pc: "(case map_of tags ''addr:postcode'' of None \<Rightarrow> PStr [] | Some v \<Rightarrow> v) =
              PStr (tag_text tags ''addr:postcode'')"
    using addr by (intro tag_get_text) simp
  show ?thesis
    unfolding element_record_def
    by (simp only: dict_get.simps bind_exn.simps t hn st ci pc py_join_four list.map)
qed

text \<open>
  The records of well-formed elements are the ones the label set and the filter are
  made for: where the cuisine tag is a str, so is the cuisine field.
\<close>

lemma element_record_cuisine_str:
  assumes "map_of kvs ''tags'' = None \<and> tags = [] \<or> map_of kvs ''tags'' = Some (PDict tags)"
    and "\<forall>k\<in>set [''addr:housenumber'', ''addr:street'', ''addr:city'', ''addr:postcode''].
                 \<forall>v. map_of tags k = Some v \<longrightarrow> (\<exists>s. v = PStr s)"
    and "\<forall>v. map_of tags ''cuisine'' = Some v \<longrightarrow> (\<exists>s. v = PStr s)"
  shows "\<exists>r raw. element_record (PDict kvs) = Inr r \<and> r_cuisine r = PStr raw"
  using assms(3) unfolding element_record_dict [OF assms(1,2)]
  by (cases "map_of tags ''cuisine''") auto

lemma fetch_try_malformed_element:
  assumes "overpass W radius la lo = Inr response"
    and "json response = Inr (PDict [(''elements'', PList [PNone])])"
  shows "fetch_nearby_restaurants W la lo radius =
           ([], [OverpassPost radius la lo, StError AttributeError])"
  using assms by (simp add: fetch_nearby_restaurants_def fetch_try_def element_record_def)

text \<open>
  Claim C6: for every raw element (a JSON object whose tags, when present, are an
  object with str address values), normalization raises nothing and gives the record
  whose name is the name tag, or "Unnamed" without one, whose cuisine is the cuisine
  tag, or "Unknown cuisine" without one, and whose address joins house number, street,
  city and postcode, in that order, with ", ", leaving out the empty and absent ones;
  with no address tag the address is the empty string.
\<close>

theorem C6_element_record:
  assumes tags: "map_of kvs ''tags'' = None \<and> tags = [] \<or> map_of kvs ''tags'' = Some (PDict tags)"
    and addr: "\<forall>k\<in>set [''addr:housenumber'', ''addr:street'', ''addr:city'', ''addr:postcode''].
                 \<forall>v. map_of tags k = Some v \<longrightarrow> (\<exists>s. v = PStr s)"
  shows "element_record (PDict kvs) =
           Inr \<lparr>r_name = (case map_of tags ''name'' of None \<Rightarrow> PStr ''Unnamed'' | Some v \<Rightarrow> v),
                r_lat = (case map_of kvs ''lat'' of None \<Rightarrow> PNone | Some v \<Rightarrow> v),
                r_lon = (case map_of kvs ''lon'' of None \<Rightarrow> PNone | Some v \<Rightarrow> v),
                r_address = str_join '', '' (filter (\<lambda>s. s \<noteq> [])
                  (map (tag_text tags)
                     [''addr:housenumber'', ''addr:street'', ''addr:city'', ''addr:postcode''])),
                r_cuisine = (case map_of tags ''cuisine'' of
                               None \<Rightarrow> PStr ''Unknown cuisine'' | Some v \<Rightarrow> v)\<rparr>
         \<and> ((\<forall>k\<in>set [''addr:housenumber'', ''addr:street'', ''addr:city'', ''addr:postcode''].
                map_of tags k = None) \<longrightarrow>
              (\<exists>r. element_record (PDict kvs) = Inr r \<and> r_address r = []))"
proof -
  note main = element_record_dict [OF tags addr]
  have "(\<forall>k\<in>set [''addr:housenumber'', ''addr:street'', ''addr:city'', ''addr:postcode''].
                map_of tags k = None) \<longrightarrow>
              (\<exists>r. element_record (PDict kvs) = Inr r \<and> r_address r = [])"
    unfolding main by (simp add: tag_text_def)
  with main show ?thesis by blast
qed

theorem C6_element_record_witness:
  "element_record sample_element =
     Inr \<lparr>r_name = PStr ''Unnamed'', r_lat = PFloat (Finite 47), r_lon = PFloat (Finite (- 122)),
          r_address = ''12, Pine Street'', r_cuisine = PStr ''italian;pizza''\<rparr>
   \<and> element_record bare_element =
     Inr \<lparr>r_name = PStr ''Da Mario'', r_lat = PNone, r_lon = PNone,
          r_address = [], r_cuisine = PStr ''Unknown cuisine''\<rparr>"
proof -
  let ?tags = "[(''amenity'', PStr ''restaurant''), (''addr:street'', PStr ''Pine Street''),
                (''addr:housenumber'', PStr ''12''), (''cuisine'', PStr ''italian;pizza'')]"
  let ?kvs = "[(''type'', PStr ''node''), (''lat'', PFloat (Finite 47)),
               (''lon'', PFloat (Finite (- 122))), (''tags'', PDict ?tags)]"
  have a1: "map_of ?kvs ''tags'' = None \<and> ?tags = [] \<or> map_of ?kvs ''tags'' = Some (PDict ?tags)"
    by simp
  have a2: "\<forall>k\<in>set [''addr:housenumber'', ''addr:street'', ''addr:city'', ''addr:postcode''].
              \<forall>v. map_of ?tags k = Some v \<longrightarrow> (\<exists>s. v = PStr s)"
    by simp
  let ?tags' = "[(''name'', PStr ''Da Mario'')]"
  let ?kvs' = "[(''tags'', PDict ?tags')]"
  have b1: "map_of ?kvs' ''tags'' = None \<and> ?tags' = [] \<or> map_of ?kvs' ''tags'' = Some (PDict ?tags')"
    by simp
  have b2: "\<forall>k\<in>set [''addr:housenumber'', ''addr:street'', ''addr:city'', ''addr:postcode''].
              \<forall>v. map_of ?tags' k = Some v \<longrightarrow> (\<exists>s. v = PStr s)"
    by simp
  from C6_element_record [OF a1 a2] C6_element_record [OF b1 b2] show ?thesis
    by (simp add: sample_element_def bare_element_def tag_text_def)
qed

text \<open>
  Claim C7: whatever exception the request, the JSON decoding or the normalization of
  the response raises, the fetch reports it as an error and returns the empty sequence,
  the value it also returns for a response without elements; the run goes on with the
  empty record set, up to the filter.
\<close>

theorem C7_fetch_catches:
  "(fetch_try W la lo radius = Inl e \<longrightarrow>
      fetch_nearby_restaurants W la lo radius = ([], [OverpassPost radius la lo, StError e]))
   \<and> (overpass W radius la lo = Inl e \<longrightarrow> fetch_try W la lo radius = Inl e)
   \<and> (overpass W radius la lo = Inr response \<and> json response = Inl e \<longrightarrow>
        fetch_try W la lo radius = Inl e)
   \<and> (overpass W radius la lo = Inr response
        \<and> json response = Inr (PDict [(''elements'', PList [])]) \<longrightarrow>
        fetch_nearby_restaurants W la lo radius = ([], [OverpassPost radius la lo]))
   \<and> (user_input \<noteq> [] \<and> geocode_location W user_input = Inr (la, lo) \<and> truthy la \<and> truthy lo
        \<and> fetch_try W la lo 7500 = Inl e \<longrightarrow>
        rerun W True user_input selected st =
          (st\<lparr>lat := la, lon := lo, location_name := user_input, restaurants := []\<rparr>,
           [GeocodeGet user_input, OverpassPost 7500 la lo, StError e,
            StWarning ''No cuisine types found in the current data.''],
           Inr []))"
proof (intro conjI impI)
  assume "fetch_try W la lo radius = Inl e"
  then show "fetch_nearby_restaurants W la lo radius = ([], [OverpassPost radius la lo, StError e])"
    by (simp add: fetch_nearby_restaurants_def)
next
  assume "overpass W radius la lo = Inl e"
  then show "fetch_try W la lo radius = Inl e" by (simp add: fetch_try_def)
next
  assume "overpass W radius la lo = Inr response \<and> json response = Inl e"
  then show "fetch_try W la lo radius = Inl e" by (simp add: fetch_try_def)
next
  assume "overpass W radius la lo = Inr response
        \<and> json response = Inr (PDict [(''elements'', PList [])])"
  then show "fetch_nearby_restaurants W la lo radius = ([], [OverpassPost radius la lo])"
    by (simp add: fetch_nearby_restaurants_def fetch_try_def)
next
  assume a: "user_input \<noteq> [] \<and> geocode_location W user_input = Inr (la, lo) \<and> truthy la
        \<and> truthy lo \<and> fetch_try W la lo 7500 = Inl e"
  then have f: "fetch_nearby_restaurants W la lo 7500 = ([], [OverpassPost 7500 la lo, StError e])"
    by (simp add: fetch_nearby_restaurants_def)
  from a have "update_location W True user_input st =
      (st\<lparr>lat := la, lon := lo, location_name := user_input, restaurants := []\<rparr>,
       [GeocodeGet user_input, OverpassPost 7500 la lo, StError e], None)"
    by (simp add: update_location_accepts f)
  then show "rerun W True user_input selected st =
          (st\<lparr>lat := la, lon := lo, location_name := user_input, restaurants := []\<rparr>,
           [GeocodeGet user_input, OverpassPost 7500 la lo, StError e,
            StWarning ''No cuisine types found in the current data.''],
           Inr [])"
    by (simp add: rerun_def extract_cuisines_def cuisine_filter_def)
qed

theorem C7_fetch_catches_witness:
  "overpass offline_world 7500 (PFloat (Finite 48)) (PFloat (Finite 2)) = Inl RequestException
   \<and> fetch_nearby_restaurants offline_world (PFloat (Finite 48)) (PFloat (Finite 2)) 7500 =
       ([], [OverpassPost 7500 (PFloat (Finite 48)) (PFloat (Finite 2)), StError RequestException])
   \<and> fetch_nearby_restaurants nowhere_world (PFloat (Finite 48)) (PFloat (Finite 2)) 7500 =
       ([], [OverpassPost 7500 (PFloat (Finite 48)) (PFloat (Finite 2))])
   \<and> geocode_location busy_world ''Paris'' =
       Inr (PFloat (Finite (97 / 2)), PFloat (Finite (9 / 4)))
   \<and> rerun busy_world True ''Paris'' ''All cuisines'' paris_session =
       (paris_session\<lparr>lat := PFloat (Finite (97 / 2)), lon := PFloat (Finite (9 / 4)),
                      location_name := ''Paris'', restaurants := []\<rparr>,
        [GeocodeGet ''Paris'',
         OverpassPost 7500 (PFloat (Finite (97 / 2))) (PFloat (Finite (9 / 4))),
         StError JSONDecodeError,
         StWarning ''No cuisine types found in the current data.''],
        Inr [])"
proof -
  let ?la = "PFloat (Finite 48)" and ?lo = "PFloat (Finite 2)"
  let ?pla = "PFloat (Finite (97 / 2))" and ?plo = "PFloat (Finite (9 / 4))"
  have o: "overpass offline_world 7500 ?la ?lo = Inl RequestException"
    by (simp add: offline_world_def)
  note off = C7_fetch_catches [of offline_world ?la ?lo 7500 RequestException]
  from off o have t: "fetch_try offline_world ?la ?lo 7500 = Inl RequestException" by blast
  from off t have f: "fetch_nearby_restaurants offline_world ?la ?lo 7500 =
      ([], [OverpassPost 7500 ?la ?lo, StError RequestException])" by blast
  have n: "overpass nowhere_world 7500 ?la ?lo =
             Inr \<lparr>status_code = 200, json = Inr (PDict [(''elements'', PList [])])\<rparr>
           \<and> json \<lparr>status_code = 200, json = Inr (PDict [(''elements'', PList [])])\<rparr> =
             Inr (PDict [(''elements'', PList [])])"
    by (simp add: nowhere_world_def)
  from C7_fetch_catches [of nowhere_world ?la ?lo 7500 _
      "\<lparr>status_code = 200, json = Inr (PDict [(''elements'', PList [])])\<rparr>"] n
  have g: "fetch_nearby_restaurants nowhere_world ?la ?lo 7500 = ([], [OverpassPost 7500 ?la ?lo])"
    by blast
  have geo: "geocode_location busy_world ''Paris'' = Inr (?pla, ?plo)"
    by (simp add: geocode_location_def busy_world_def)
  have b: "overpass busy_world 7500 ?pla ?plo =
             Inr \<lparr>status_code = 504, json = Inl JSONDecodeError\<rparr>
           \<and> json \<lparr>status_code = 504, json = Inl JSONDecodeError\<rparr> = Inl JSONDecodeError"
    by (simp add: busy_world_def)
  note busy = C7_fetch_catches [of busy_world ?pla ?plo 7500 JSONDecodeError
      "\<lparr>status_code = 504, json = Inl JSONDecodeError\<rparr>" "''Paris''"
      "''All cuisines''" paris_session]
  from busy b have bt: "fetch_try busy_world ?pla ?plo 7500 = Inl JSONDecodeError" by blast
  have pre: "''Paris'' \<noteq> [] \<and> geocode_location busy_world ''Paris'' = Inr (?pla, ?plo)
      \<and> truthy ?pla \<and> truthy ?plo \<and> fetch_try busy_world ?pla ?plo 7500 = Inl JSONDecodeError"
    using geo bt by simp
  from busy pre have r: "rerun busy_world True ''Paris'' ''All cuisines'' paris_session =
       (paris_session\<lparr>lat := ?pla, lon := ?plo, location_name := ''Paris'', restaurants := []\<rparr>,
        [GeocodeGet ''Paris'', OverpassPost 7500 ?pla ?plo, StError JSONDecodeError,
         StWarning ''No cuisine types found in the current data.''],
        Inr [])" by blast
  from o f g geo r show ?thesis by blast
qed

text \<open>
  Claim C8 as stated fails: an element without \<open>lat\<close> and \<open>lon\<close> gives a record
  whose latitude and longitude are None.
\<close>

theorem C8_missing_coordinates_counterexample:
  "normalize_loop [bare_element] [] =
     Inr [\<lparr>r_name = PStr ''Da Mario'', r_lat = PNone, r_lon = PNone,
           r_address = [], r_cuisine = PStr ''Unknown cuisine''\<rparr>]"
  by (simp add: bare_element_def element_record_def py_join_def)

text \<open>
  Claim C8, amended: normalization gives one record per raw element, in order, and the
  latitude and longitude of each record are what \<open>element.get("lat")\<close> and
  \<open>element.get("lon")\<close> return: the raw values, unconverted, and None for an element
  without the key.
\<close>

theorem C8_coordinates_passed_through:
  assumes "normalize_loop es [] = Inr rs"
  shows "length rs = length es
         \<and> (\<forall>i<length es. dict_get (es ! i) ''lat'' PNone = Inr (r_lat (rs ! i))
                          \<and> dict_get (es ! i) ''lon'' PNone = Inr (r_lon (rs ! i)))"
proof -
  from normalize_loop_records [OF assms]
  have all: "list_all2 (\<lambda>e r. element_record e = Inr r) es rs" by simp
  then have len: "length rs = length es" by (simp add: list_all2_lengthD)
  have "\<forall>i<length es. dict_get (es ! i) ''lat'' PNone = Inr (r_lat (rs ! i))
                          \<and> dict_get (es ! i) ''lon'' PNone = Inr (r_lon (rs ! i))"
  proof (intro allI impI)
    fix i assume "i < length es"
    from list_all2_nthD [OF all this]
    have "element_record (es ! i) = Inr (rs ! i)" .
    then show "dict_get (es ! i) ''lat'' PNone = Inr (r_lat (rs ! i))
                 \<and> dict_get (es ! i) ''lon'' PNone = Inr (r_lon (rs ! i))"
      by (rule element_record_coordinates)
  qed
  with len show ?thesis by blast
qed

theorem C8_coordinates_passed_through_witness:
  "normalize_loop [sample_element, bare_element] [] =
     Inr [\<lparr>r_name = PStr ''Unnamed'', r_lat = PFloat (Finite 47), r_lon = PFloat (Finite (- 122)),
           r_address = ''12, Pine Street'', r_cuisine = PStr ''italian;pizza''\<rparr>,
          \<lparr>r_name = PStr ''Da Mario'', r_lat = PNone, r_lon = PNone,
           r_address = [], r_cuisine = PStr ''Unknown cuisine''\<rparr>]
   \<and> dict_get sample_element ''lat'' PNone = Inr (PFloat (Finite 47))
   \<and> dict_get bare_element ''lat'' PNone = Inr PNone
   \<and> dict_get bare_element ''lon'' PNone = Inr PNone"
proof -
  have h: "normalize_loop [sample_element, bare_element] [] =
     Inr [\<lparr>r_name = PStr ''Unnamed'', r_lat = PFloat (Finite 47), r_lon = PFloat (Finite (- 122)),
           r_address = ''12, Pine Street'', r_cuisine = PStr ''italian;pizza''\<rparr>,
          \<lparr>r_name = PStr ''Da Mario'', r_lat = PNone, r_lon = PNone,
           r_address = [], r_cuisine = PStr ''Unknown cuisine''\<rparr>]"
    by (simp add: sample_element_def bare_element_def element_record_def py_join_def)
  note c8 = C8_coordinates_passed_through [OF h]
  from c8 [THEN conjunct2, THEN spec, of 0]
  have a0: "dict_get sample_element ''lat'' PNone = Inr (PFloat (Finite 47))"
    by simp
  from c8 [THEN conjunct2, THEN spec, of "Suc 0"]
  have a1: "dict_get bare_element ''lat'' PNone = Inr PNone
      \<and> dict_get bare_element ''lon'' PNone = Inr PNone"
    by simp
  from a0 a1 have "dict_get sample_element ''lat'' PNone = Inr (PFloat (Finite 47))
      \<and> dict_get bare_element ''lat'' PNone = Inr PNone
      \<and> dict_get bare_element ''lon'' PNone = Inr PNone"
    by blast
  with h show ?thesis by blast
qed

text \<open>
  Claim C9, at an input where it fails: a submission for Paris is geocoded, the fetch
  fails and leaves the session with no record; the next run of the script, with nothing
  submitted, sends the same request to the POI service again.
\<close>

theorem C9_empty_session_fetches_again:
  "update_location busy_world True ''Paris'' fresh_session =
     (fresh_session\<lparr>lat := PFloat (Finite (97 / 2)), lon := PFloat (Finite (9 / 4)),
                     location_name := ''Paris''\<rparr>,
      [GeocodeGet ''Paris'',
       OverpassPost 7500 (PFloat (Finite (97 / 2))) (PFloat (Finite (9 / 4))),
       StError JSONDecodeError], None)
   \<and> update_location busy_world False ''Paris''
       (fresh_session\<lparr>lat := PFloat (Finite (97 / 2)), lon := PFloat (Finite (9 / 4)),
                       location_name := ''Paris''\<rparr>) =
     (fresh_session\<lparr>lat := PFloat (Finite (97 / 2)), lon := PFloat (Finite (9 / 4)),
                     location_name := ''Paris''\<rparr>,
      [OverpassPost 7500 (PFloat (Finite (97 / 2))) (PFloat (Finite (9 / 4))),
       StError JSONDecodeError], None)"
  by (simp add: update_location_def geocode_location_def busy_world_def fresh_session_def
        fetch_nearby_restaurants_def fetch_try_def)

text \<open>
  Claim C10: when the geocoder succeeds with a latitude or a longitude equal to 0.0,
  the update does what it does for a geocoder that found nothing: the session is left
  as it was, the warning "Location not found" is shown, and nothing is fetched.
\<close>

theorem C10_zero_coordinate_rejected:
  assumes "user_input \<noteq> []"
    and "geocode_location W user_input = Inr (PFloat la, PFloat lo)"
    and "la = Finite 0 \<or> lo = Finite 0"
    and "geocode_location W' user_input = Inr (PNone, PNone)"
  shows "update_location W True user_input st =
           (st, [GeocodeGet user_input,
                 StWarning ''Location not found. Keeping previous location.''], None)
         \<and> update_location W True user_input st = update_location W' True user_input st"
proof -
  from assms(1,2,3) have "update_location W True user_input st =
           (st, [GeocodeGet user_input,
                 StWarning ''Location not found. Keeping previous location.''], None)"
    by (auto simp: update_location_def)
  moreover note update_location_not_found [OF assms(1) assms(4), of st]
  ultimately show ?thesis by simp
qed

theorem C10_zero_coordinate_rejected_witness:
  "''Equator'' \<noteq> []
   \<and> geocode_location equator_world ''Equator'' =
       Inr (PFloat (Finite 0), PFloat (Finite (21 / 2)))
   \<and> geocode_location nowhere_world ''Equator'' = Inr (PNone, PNone)
   \<and> update_location equator_world True ''Equator'' paris_session =
       (paris_session, [GeocodeGet ''Equator'',
                        StWarning ''Location not found. Keeping previous location.''], None)
   \<and> update_location equator_world True ''Equator'' paris_session =
       update_location nowhere_world True ''Equator'' paris_session"
proof -
  have h1: "''Equator'' \<noteq> []" by simp
  have h2: "geocode_location equator_world ''Equator'' =
              Inr (PFloat (Finite 0), PFloat (Finite (21 / 2)))"
    by (simp add: geocode_location_def equator_world_def)
  have h3: "Finite 0 = Finite 0 \<or> Finite (21 / 2) = Finite 0" by simp
  have h4: "geocode_location nowhere_world ''Equator'' = Inr (PNone, PNone)"
    by (simp add: geocode_location_def nowhere_world_def)
  from C10_zero_coordinate_rejected [OF h1 h2 h3 h4, of paris_session] h1 h2 h4
  show ?thesis by blast
qed

end
